theory Spec2Isabelle
  imports Complex_Main
begin

section \<open>Python floats and exceptions\<close>

text \<open>
  Every quantity of the estimator is a Python \<open>float\<close>. A float is modelled as a real
  number or one of the three special values of IEEE 754 that Python exposes
  (\<open>float("inf")\<close>, \<open>float("-inf")\<close>, \<open>float("nan")\<close>). Overflow is modelled: a result
  whose magnitude reaches the overflow threshold of the double format becomes an infinity,
  or raises \<open>OverflowError\<close> in the power operator. Rounding is not modelled, nor is the
  sign of zero: below the threshold a finite float is the real number it denotes and
  arithmetic is exact, so tiny results are not rounded to zero and close results are not
  rounded together. The integer literals of the source (\<open>1500\<close>, \<open>88\<close>, \<open>100\<close>) only
  ever meet floats or true division, so they are finite floats too.
\<close>

datatype pyfloat = Fin real | PInf | NInf | NaN

text \<open>
  The largest double is \<open>2^1024 - 2^971\<close>; with rounding to nearest, a result of
  magnitude \<open>2^1024 - 2^970\<close> or more overflows.
\<close>

definition DBL_OVERFLOW :: real where
  "DBL_OVERFLOW = 2 ^ 1024 - 2 ^ 970"

definition overflows :: "real \<Rightarrow> bool" where
  "overflows r = (DBL_OVERFLOW \<le> \<bar>r\<bar>)"

definition signed_inf :: "real \<Rightarrow> pyfloat" where
  "signed_inf r = (if 0 < r then PInf else NInf)"

text \<open>
  The normal range of the double format, from \<open>2^-1022\<close> up to half the overflow
  threshold. Results in this range are rounded with a relative error of at most \<open>2^-53\<close>;
  it is used below to state that the intermediate results of a formula neither overflow nor
  underflow.
\<close>

definition normal_double :: "real \<Rightarrow> bool" where
  "normal_double r = (1 / 2 ^ 1022 \<le> \<bar>r\<bar> \<and> \<bar>r\<bar> < 2 ^ 1023)"

text \<open>The built-in exceptions that the modelled code can raise.\<close>

datatype py_error = ZeroDivisionError | OverflowError | ValueError | EOFError

text \<open>The class name of an exception, \<open>type(e).__name__\<close>.\<close>

fun error_name :: "py_error \<Rightarrow> string" where
  "error_name ZeroDivisionError = ''ZeroDivisionError''"
| "error_name OverflowError = ''OverflowError''"
| "error_name ValueError = ''ValueError''"
| "error_name EOFError = ''EOFError''"

text \<open>
  \<open>a * b\<close> on floats: NaN is contagious, zero times infinity is NaN, and a finite product
  that leaves the range is an infinity.
\<close>

fun py_mul :: "pyfloat \<Rightarrow> pyfloat \<Rightarrow> pyfloat" where
  "py_mul NaN _ = NaN"
| "py_mul _ NaN = NaN"
| "py_mul (Fin x) (Fin y) = (if overflows (x * y) then signed_inf (x * y) else Fin (x * y))"
| "py_mul (Fin x) PInf = (if x = 0 then NaN else if 0 < x then PInf else NInf)"
| "py_mul (Fin x) NInf = (if x = 0 then NaN else if 0 < x then NInf else PInf)"
| "py_mul PInf (Fin y) = (if y = 0 then NaN else if 0 < y then PInf else NInf)"
| "py_mul NInf (Fin y) = (if y = 0 then NaN else if 0 < y then NInf else PInf)"
| "py_mul PInf PInf = PInf"
| "py_mul PInf NInf = NInf"
| "py_mul NInf PInf = NInf"
| "py_mul NInf NInf = PInf"

text \<open>
  \<open>a + b\<close> on floats: infinities of opposite sign add up to NaN, and a finite sum that
  leaves the range is an infinity.
\<close>

fun py_add :: "pyfloat \<Rightarrow> pyfloat \<Rightarrow> pyfloat" where
  "py_add NaN _ = NaN"
| "py_add _ NaN = NaN"
| "py_add (Fin x) (Fin y) = (if overflows (x + y) then signed_inf (x + y) else Fin (x + y))"
| "py_add PInf NInf = NaN"
| "py_add NInf PInf = NaN"
| "py_add PInf _ = PInf"
| "py_add _ PInf = PInf"
| "py_add NInf _ = NInf"
| "py_add _ NInf = NInf"

text \<open>
  The IEEE quotient \<open>a / b\<close> for a divisor that is not zero. Python never computes it for a
  zero divisor (see \<open>py_truediv\<close>), so the value at \<open>Fin 0\<close> plays no role. The quotient
  of a float by a divisor of magnitude 1 or more is no larger than the float, so a quotient
  can only overflow when the divisor is below 1 in magnitude.
\<close>

fun float_quot :: "pyfloat \<Rightarrow> pyfloat \<Rightarrow> pyfloat" where
  "float_quot NaN _ = NaN"
| "float_quot _ NaN = NaN"
| "float_quot (Fin x) (Fin y) =
     (if \<bar>y\<bar> < 1 \<and> overflows (x / y) then signed_inf (x / y) else Fin (x / y))"
| "float_quot (Fin x) PInf = Fin 0"
| "float_quot (Fin x) NInf = Fin 0"
| "float_quot PInf (Fin y) = (if 0 < y then PInf else NInf)"
| "float_quot NInf (Fin y) = (if 0 < y then NInf else PInf)"
| "float_quot PInf PInf = NaN"
| "float_quot PInf NInf = NaN"
| "float_quot NInf PInf = NaN"
| "float_quot NInf NInf = NaN"

text \<open>
  Python's \<open>a / b\<close>: a zero divisor raises \<open>ZeroDivisionError\<close> whatever the dividend is
  (also for an infinite or NaN dividend); no other division raises.
\<close>

definition py_truediv :: "pyfloat \<Rightarrow> pyfloat \<Rightarrow> py_error + pyfloat" where
  "py_truediv a b = (if b = Fin 0 then Inl ZeroDivisionError else Inr (float_quot a b))"

text \<open>
  \<open>a ** 2\<close>: unlike multiplication, the power operator raises \<open>OverflowError\<close> when the
  square of a finite float leaves the range.
\<close>

fun py_pow2 :: "pyfloat \<Rightarrow> py_error + pyfloat" where
  "py_pow2 (Fin x) = (if overflows (x\<^sup>2) then Inl OverflowError else Inr (Fin (x\<^sup>2)))"
| "py_pow2 PInf = Inr PInf"
| "py_pow2 NInf = Inr PInf"
| "py_pow2 NaN = Inr NaN"

text \<open>\<open>math.sin\<close> raises \<open>ValueError\<close> (math domain error) at an infinity.\<close>

fun math_sin :: "pyfloat \<Rightarrow> py_error + pyfloat" where
  "math_sin (Fin x) = Inr (Fin (sin x))"
| "math_sin PInf = Inl ValueError"
| "math_sin NInf = Inl ValueError"
| "math_sin NaN = Inr NaN"

text \<open>\<open>math.atan\<close> is defined everywhere.\<close>

fun math_atan :: "pyfloat \<Rightarrow> pyfloat" where
  "math_atan (Fin x) = Fin (arctan x)"
| "math_atan PInf = Fin (pi / 2)"
| "math_atan NInf = Fin (- (pi / 2))"
| "math_atan NaN = NaN"

text \<open>\<open>a < b\<close> and \<open>a > b\<close>: every comparison with NaN is false.\<close>

fun py_lt :: "pyfloat \<Rightarrow> pyfloat \<Rightarrow> bool" where
  "py_lt NaN _ = False"
| "py_lt _ NaN = False"
| "py_lt (Fin x) (Fin y) = (x < y)"
| "py_lt _ NInf = False"
| "py_lt PInf _ = False"
| "py_lt NInf _ = True"
| "py_lt _ PInf = True"

definition py_gt :: "pyfloat \<Rightarrow> pyfloat \<Rightarrow> bool" where
  "py_gt a b = py_lt b a"

text \<open>\<open>a <= b\<close>, used to compare results in the monotonicity statements below.\<close>

fun py_le :: "pyfloat \<Rightarrow> pyfloat \<Rightarrow> bool" where
  "py_le NaN _ = False"
| "py_le _ NaN = False"
| "py_le (Fin x) (Fin y) = (x \<le> y)"
| "py_le NInf _ = True"
| "py_le _ PInf = True"
| "py_le _ NInf = False"
| "py_le PInf _ = False"

section \<open>utils.py\<close>

definition convert_kmh_to_ms :: "pyfloat \<Rightarrow> pyfloat" where
  "convert_kmh_to_ms speed_kmh = float_quot speed_kmh (Fin (36 / 10))"

definition convert_ms_to_kmh :: "pyfloat \<Rightarrow> pyfloat" where
  "convert_ms_to_kmh speed_ms = py_mul speed_ms (Fin (36 / 10))"

definition convert_degrees_to_radians :: "pyfloat \<Rightarrow> pyfloat" where
  "convert_degrees_to_radians degrees = float_quot (py_mul degrees (Fin pi)) (Fin 180)"

definition convert_slope_percent_to_radians :: "pyfloat \<Rightarrow> pyfloat" where
  "convert_slope_percent_to_radians slope_percent = math_atan (float_quot slope_percent (Fin 100))"

definition convert_watts_to_kwh :: "pyfloat \<Rightarrow> pyfloat" where
  "convert_watts_to_kwh power_watts = float_quot power_watts (Fin 1000)"

section \<open>vehicle_data.py\<close>

definition GRAVITY :: pyfloat where
  "GRAVITY = Fin (981 / 100)"

definition AIR_DENSITY :: pyfloat where
  "AIR_DENSITY = Fin (1225 / 1000)"

text \<open>
  A vehicle is a dictionary with five numeric keys that the code reads by literal name;
  the presets carry a \<open>'name'\<close> as well, the custom vehicle none.
\<close>

record vehicle_params =
  name :: "string option"
  mass :: pyfloat
  drag_coefficient :: pyfloat
  frontal_area :: pyfloat
  rolling_resistance :: pyfloat
  battery_capacity :: pyfloat

definition COMPACT_EV :: vehicle_params where
  "COMPACT_EV = \<lparr> name = Some ''Nissan Leaf'', mass = Fin 1500,
     drag_coefficient = Fin (28 / 100), frontal_area = Fin (22 / 10),
     rolling_resistance = Fin (10 / 1000), battery_capacity = Fin 50 \<rparr>"

section \<open>physics_models.py\<close>

definition calculate_rolling_resistance :: "pyfloat \<Rightarrow> pyfloat \<Rightarrow> pyfloat \<Rightarrow> pyfloat" where
  "calculate_rolling_resistance m Crr g = py_mul (py_mul m Crr) g"

text \<open>
  In \<open>0.5 * Cd * frontal_area * air_density * speed_ms ** 2\<close> the power binds tightest and
  the products associate to the left. Only the power can raise, so it is written first.
\<close>

definition calculate_drag_force ::
  "pyfloat \<Rightarrow> pyfloat \<Rightarrow> pyfloat \<Rightarrow> pyfloat \<Rightarrow> py_error + pyfloat" where
  "calculate_drag_force speed_ms Cd area air_density =
     (case py_pow2 speed_ms of
        Inl e \<Rightarrow> Inl e
      | Inr sq \<Rightarrow>
          Inr (py_mul (py_mul (py_mul (py_mul (Fin (5 / 10)) Cd) area) air_density) sq))"

definition calculate_gradient_force :: "pyfloat \<Rightarrow> pyfloat \<Rightarrow> pyfloat \<Rightarrow> py_error + pyfloat" where
  "calculate_gradient_force m slope_angle_rad g =
     (case math_sin slope_angle_rad of
        Inl e \<Rightarrow> Inl e
      | Inr s \<Rightarrow> Inr (py_mul (py_mul m g) s))"

definition calculate_total_resistance :: "pyfloat \<Rightarrow> pyfloat \<Rightarrow> pyfloat \<Rightarrow> pyfloat" where
  "calculate_total_resistance rolling_force drag_force gradient_force =
     py_add (py_add rolling_force drag_force) gradient_force"

definition calculate_power_at_wheels :: "pyfloat \<Rightarrow> pyfloat \<Rightarrow> pyfloat" where
  "calculate_power_at_wheels total_force speed_ms = py_mul total_force speed_ms"

definition calculate_power_from_battery :: "pyfloat \<Rightarrow> pyfloat \<Rightarrow> py_error + pyfloat" where
  "calculate_power_from_battery power_at_wheels drivetrain_eff =
     py_truediv power_at_wheels drivetrain_eff"

definition calculate_energy_per_km :: "pyfloat \<Rightarrow> pyfloat \<Rightarrow> py_error + pyfloat" where
  "calculate_energy_per_km power_battery_watts speed_ms =
     (let power_kwh = convert_watts_to_kwh power_battery_watts;
          speed_km = convert_ms_to_kmh speed_ms
      in py_truediv power_kwh speed_km)"

definition calculate_usable_battery_energy :: "pyfloat \<Rightarrow> pyfloat \<Rightarrow> pyfloat" where
  "calculate_usable_battery_energy battery_capacity_kwh usable_percent =
     py_mul battery_capacity_kwh usable_percent"

definition calculate_range :: "pyfloat \<Rightarrow> pyfloat \<Rightarrow> py_error + pyfloat" where
  "calculate_range usable_energy_kwh energy_per_km = py_truediv usable_energy_kwh energy_per_km"


section \<open>user_interface.py\<close>

text \<open>
  \<open>input(prompt)\<close> reads one line of standard input. A line is represented by what the
  code can observe of it: whether it is the empty string, and what the built-in
  \<open>float(user_input)\<close> makes of it (a float, which for the texts \<open>nan\<close>, \<open>inf\<close> and
  \<open>-inf\<close> is a special value, or a \<open>ValueError\<close>). Standard input is a list of lines;
  reading past its end raises \<open>EOFError\<close>. Printed output is not modelled.
\<close>

datatype input_line = Empty_line | Numeric pyfloat | Non_numeric

fun float_of_line :: "input_line \<Rightarrow> py_error + pyfloat" where
  "float_of_line Empty_line = Inl ValueError"
| "float_of_line (Numeric v) = Inr v"
| "float_of_line Non_numeric = Inl ValueError"

text \<open>
  The \<open>while True\<close> loop of \<open>get_user_input\<close> consumes one line per iteration, so it is
  a recursion on the remaining input. The result is the accepted value and the input left.
\<close>

fun get_user_input ::
  "pyfloat option \<Rightarrow> pyfloat option \<Rightarrow> pyfloat option \<Rightarrow> input_line list
     \<Rightarrow> py_error + (pyfloat \<times> input_line list)" where
  "get_user_input min_value max_value default_value [] = Inl EOFError"
| "get_user_input min_value max_value default_value (user_input # rest) =
     (if user_input = Empty_line \<and> default_value \<noteq> None then Inr (the default_value, rest)
      else case float_of_line user_input of
             Inl e \<Rightarrow> get_user_input min_value max_value default_value rest
           | Inr val \<Rightarrow>
               if min_value \<noteq> None \<and> py_lt val (the min_value)
                 then get_user_input min_value max_value default_value rest
               else if max_value \<noteq> None \<and> py_gt val (the max_value)
                 then get_user_input min_value max_value default_value rest
               else Inr (val, rest))"

record driving_conditions =
  speed_kmh :: pyfloat
  slope_percent :: pyfloat

record system_params =
  drivetrain_efficiency :: pyfloat
  battery_usable_percent :: pyfloat

definition get_system_parameters ::
  "input_line list \<Rightarrow> py_error + (system_params \<times> input_line list)" where
  "get_system_parameters stdin =
     (case get_user_input (Some (Fin 70)) (Some (Fin 98)) (Some (Fin 88)) stdin of
        Inl e \<Rightarrow> Inl e
      | Inr (efficiency, stdin1) \<Rightarrow>
          (case get_user_input (Some (Fin 70)) (Some (Fin 100)) (Some (Fin 90)) stdin1 of
             Inl e \<Rightarrow> Inl e
           | Inr (usable, stdin2) \<Rightarrow>
               Inr (\<lparr> drivetrain_efficiency = float_quot efficiency (Fin 100),
                      battery_usable_percent = float_quot usable (Fin 100) \<rparr>, stdin2)))"

section \<open>main.py\<close>

text \<open>
  One pass of the loop body of \<open>main\<close>, from the three dictionaries the prompts return to
  the values handed to \<open>display_results\<close>. The record holds the local variables of the
  pass, in the order in which they are assigned; an exception ends the pass.
\<close>

record results =
  rolling :: pyfloat
  drag :: pyfloat
  gradient :: pyfloat
  total_force :: pyfloat
  power_wheels :: pyfloat
  power_battery :: pyfloat
  energy_per_km :: pyfloat
  usable_energy :: pyfloat
  range_km :: pyfloat

definition main_pipeline ::
  "vehicle_params \<Rightarrow> driving_conditions \<Rightarrow> system_params \<Rightarrow> py_error + results" where
  "main_pipeline vehicle conditions system =
     (let speed_ms = convert_kmh_to_ms (speed_kmh conditions);
          slope_rad = convert_slope_percent_to_radians (slope_percent conditions);
          ro = calculate_rolling_resistance (mass vehicle) (rolling_resistance vehicle) GRAVITY
      in case calculate_drag_force speed_ms (drag_coefficient vehicle) (frontal_area vehicle)
                AIR_DENSITY of
           Inl e \<Rightarrow> Inl e
         | Inr dr \<Rightarrow>
        (case calculate_gradient_force (mass vehicle) slope_rad GRAVITY of
           Inl e \<Rightarrow> Inl e
         | Inr gr \<Rightarrow>
             (let tot = calculate_total_resistance ro dr gr;
                  pw = calculate_power_at_wheels tot speed_ms
              in case calculate_power_from_battery pw (drivetrain_efficiency system) of
                   Inl e \<Rightarrow> Inl e
                 | Inr pb \<Rightarrow>
                     (case calculate_energy_per_km pb speed_ms of
                        Inl e \<Rightarrow> Inl e
                      | Inr epk \<Rightarrow>
                          (let ue = calculate_usable_battery_energy (battery_capacity vehicle)
                                      (battery_usable_percent system)
                           in case calculate_range ue epk of
                                Inl e \<Rightarrow> Inl e
                              | Inr rng \<Rightarrow>
                                  Inr \<lparr> rolling = ro, drag = dr, gradient = gr,
                                        total_force = tot, power_wheels = pw,
                                        power_battery = pb, energy_per_km = epk,
                                        usable_energy = ue, range_km = rng \<rparr>)))))"

section \<open>Staying in range\<close>

text \<open>
  Facts about the overflow threshold: results of moderate size do not overflow, and cutting a
  real off at the threshold preserves order.
\<close>

lemma DBL_OVERFLOW_gt: "2 ^ 1023 < DBL_OVERFLOW"
  by (simp add: DBL_OVERFLOW_def)

lemma not_overflows: "\<bar>r\<bar> \<le> 2 ^ 1023 \<Longrightarrow> \<not> overflows r"
  using DBL_OVERFLOW_gt by (simp add: overflows_def)

lemma small_le_big: "(10::real) ^ 30 \<le> 2 ^ 1023"
  by simp

lemma not_overflows_small: "\<bar>r\<bar> \<le> 10 ^ 30 \<Longrightarrow> \<not> overflows r"
  by (rule not_overflows) (rule order_trans [OF _ small_le_big])

lemma py_mul_small: "\<bar>x * y\<bar> \<le> 10 ^ 30 \<Longrightarrow> py_mul (Fin x) (Fin y) = Fin (x * y)"
  by (simp add: not_overflows_small)




lemma py_pow2_small: "\<bar>x\<^sup>2\<bar> \<le> 10 ^ 30 \<Longrightarrow> py_pow2 (Fin x) = Inr (Fin (x\<^sup>2))"
  by (simp add: not_overflows_small)


lemma DBL_OVERFLOW_pos: "0 < DBL_OVERFLOW"
  using DBL_OVERFLOW_gt by (rule less_trans [rotated]) simp

lemma normal_no_overflow: "normal_double r \<Longrightarrow> \<not> overflows r"
  by (rule not_overflows) (simp add: normal_double_def)

lemma normal_double_mid: "1 / 10 ^ 30 \<le> \<bar>r\<bar> \<Longrightarrow> \<bar>r\<bar> \<le> 10 ^ 30 \<Longrightarrow> normal_double r"
proof -
  assume lo: "1 / 10 ^ 30 \<le> \<bar>r\<bar>" and hi: "\<bar>r\<bar> \<le> 10 ^ 30"
  have "(1::real) / 2 ^ 1022 \<le> 1 / 10 ^ 30"
    by (simp add: field_simps)
  then have "1 / 2 ^ 1022 \<le> \<bar>r\<bar>"
    using lo by (rule order_trans)
  moreover have "(10::real) ^ 30 < 2 ^ 1023"
    by simp
  with hi have "\<bar>r\<bar> < 2 ^ 1023"
    by (rule le_less_trans)
  ultimately show ?thesis
    by (simp add: normal_double_def)
qed






section \<open>Unit conversions\<close>

text \<open>
  Claim C5. For every real slope percentage \<open>s\<close>, \<open>convert_slope_percent_to_radians\<close>
  returns \<open>atan(s / 100)\<close>: it returns a finite angle for every finite input, the tangent of
  the angle is the grade \<open>s / 100\<close>, and the angle lies strictly between \<open>-pi/2\<close> and
  \<open>pi/2\<close>. It is not the degrees-to-radians scaling: a 100 percent grade is \<open>pi/4\<close>, while
  100 degrees are \<open>5 pi / 9\<close>.
\<close>

theorem slope_percent_is_arctan:
  "(\<exists>a. convert_slope_percent_to_radians (Fin s) = Fin a \<and> a = arctan (s / 100)
        \<and> tan a = s / 100 \<and> - (pi / 2) < a \<and> a < pi / 2)
   \<and> convert_slope_percent_to_radians (Fin 100) = Fin (pi / 4)
   \<and> convert_degrees_to_radians (Fin 100) = Fin (5 * pi / 9)"
proof -
  have "convert_slope_percent_to_radians (Fin s) = Fin (arctan (s / 100))"
    by (simp add: convert_slope_percent_to_radians_def)
  moreover have "tan (arctan (s / 100)) = s / 100"
    by (rule tan_arctan)
  moreover have "- (pi / 2) < arctan (s / 100)" "arctan (s / 100) < pi / 2"
    by (rule arctan_lbound, rule arctan_ubound)
  moreover have "convert_slope_percent_to_radians (Fin 100) = Fin (pi / 4)"
    by (simp add: convert_slope_percent_to_radians_def arctan_one)
  moreover have "convert_degrees_to_radians (Fin 100) = Fin (5 * pi / 9)"
  proof -
    have "\<bar>100 * pi\<bar> \<le> 10 ^ 30"
      using pi_less_4 pi_gt_zero by simp
    then have "py_mul (Fin 100) (Fin pi) = Fin (100 * pi)"
      by (rule py_mul_small)
    then show ?thesis
      by (simp add: convert_degrees_to_radians_def)
  qed
  ultimately show ?thesis by blast
qed

text \<open>
  Claim C6, as stated, fails: for \<open>x = 10^308\<close> the product \<open>x * 3.6\<close> overflows, and the
  round trip returns infinity instead of \<open>x\<close>.
\<close>

theorem speed_round_trip_counterexample:
  "convert_kmh_to_ms (convert_ms_to_kmh (Fin (10 ^ 308))) = PInf"
  by (simp add: convert_kmh_to_ms_def convert_ms_to_kmh_def overflows_def DBL_OVERFLOW_def
      signed_inf_def)

text \<open>
  Claim C6, amended. For every \<open>x \<ge> 0\<close> whose product \<open>x * 3.6\<close> stays below the overflow
  threshold (\<open>x\<close> up to about \<open>4.99 * 10^307\<close>), converting \<open>x\<close> from m/s to km/h and back
  gives \<open>x\<close> again (exactly here, within rounding on the machine); for larger \<open>x\<close> the
  round trip gives infinity. A slope of 0 percent is the angle 0.
\<close>

theorem speed_round_trip:
  assumes "0 \<le> x"
  shows "convert_kmh_to_ms (convert_ms_to_kmh (Fin x))
           = (if x * (36 / 10) < DBL_OVERFLOW then Fin x else PInf)
         \<and> convert_slope_percent_to_radians (Fin 0) = Fin 0"
proof -
  have zero: "convert_slope_percent_to_radians (Fin 0) = Fin 0"
    by (simp add: convert_slope_percent_to_radians_def)
  have abs: "\<bar>x * (36 / 10)\<bar> = x * (36 / 10)"
    using assms by simp
  show ?thesis
  proof (cases "x * (36 / 10) < DBL_OVERFLOW")
    case True
    then have "\<not> overflows (x * (36 / 10))"
      unfolding overflows_def abs by simp
    then have "convert_ms_to_kmh (Fin x) = Fin (x * (36 / 10))"
      by (simp add: convert_ms_to_kmh_def)
    then have "convert_kmh_to_ms (convert_ms_to_kmh (Fin x)) = Fin x"
      by (simp add: convert_kmh_to_ms_def)
    with True zero show ?thesis by simp
  next
    case False
    then have ov: "overflows (x * (36 / 10))"
      unfolding overflows_def abs by simp
    from False DBL_OVERFLOW_pos have "0 < x * (36 / 10)"
      by linarith
    with ov have "convert_ms_to_kmh (Fin x) = PInf"
      by (simp add: convert_ms_to_kmh_def signed_inf_def)
    then have "convert_kmh_to_ms (convert_ms_to_kmh (Fin x)) = PInf"
      by (simp add: convert_kmh_to_ms_def)
    with False zero show ?thesis by simp
  qed
qed

theorem speed_round_trip_witness:
  "(0::real) \<le> 25 \<and> convert_kmh_to_ms (convert_ms_to_kmh (Fin 25)) = Fin 25
         \<and> convert_slope_percent_to_radians (Fin 0) = Fin 0"
proof -
  have h: "(0::real) \<le> 25" by simp
  have "(25::real) * (36 / 10) \<le> 2 ^ 1023" by simp
  then have "(25::real) * (36 / 10) < DBL_OVERFLOW"
    by (rule le_less_trans [OF _ DBL_OVERFLOW_gt])
  with speed_round_trip [OF h] h show ?thesis
    by (simp only: if_True)
qed

section \<open>Forces\<close>

text \<open>
  Claim C7, as stated, fails. At the speed \<open>2^600\<close> the power \<open>speed_ms ** 2\<close> raises
  \<open>OverflowError\<close>, so there is no drag force; and for the positive coefficients
  \<open>Cd = area = 10^200\<close> the product of the coefficients is infinite, so at speed 0 the
  drag force is NaN, not 0.
\<close>

theorem drag_force_counterexample:
  "calculate_drag_force (Fin (2 ^ 600)) (Fin (28 / 100)) (Fin (22 / 10)) (Fin (1225 / 1000))
     = Inl OverflowError
   \<and> calculate_drag_force (Fin 0) (Fin (10 ^ 200)) (Fin (10 ^ 200)) (Fin (1225 / 1000))
     = Inr NaN"
  by (simp add: calculate_drag_force_def overflows_def DBL_OVERFLOW_def signed_inf_def)

text \<open>
  Claim C7, amended. For positive drag coefficient, frontal area and air density, and speeds
  \<open>0 \<le> v1 \<le> v2\<close>, as long as every intermediate result of the formula is in the normal
  range of a double (the square of a speed and the product with it need not be when the
  speed is 0): the drag force is \<open>0.5 * Cd * A * rho * v^2\<close>, it does not decrease from
  \<open>v1\<close> to \<open>v2\<close>, and it is 0 at speed 0.
\<close>

theorem drag_force_monotone:
  assumes "0 < cd" and "0 < a" and "0 < rho"
    and "normal_double (5 / 10 * cd)" and "normal_double (5 / 10 * cd * a)"
    and "normal_double (5 / 10 * cd * a * rho)"
    and "0 \<le> v1" and "v1 \<le> v2"
    and "v1 = 0 \<or> (normal_double (v1\<^sup>2) \<and> normal_double (5 / 10 * cd * a * rho * v1\<^sup>2))"
    and "v2 = 0 \<or> (normal_double (v2\<^sup>2) \<and> normal_double (5 / 10 * cd * a * rho * v2\<^sup>2))"
  shows "\<exists>d1 d2.
           calculate_drag_force (Fin v1) (Fin cd) (Fin a) (Fin rho) = Inr (Fin d1)
         \<and> calculate_drag_force (Fin v2) (Fin cd) (Fin a) (Fin rho) = Inr (Fin d2)
         \<and> d1 = 5 / 10 * cd * a * rho * v1\<^sup>2 \<and> d2 = 5 / 10 * cd * a * rho * v2\<^sup>2
         \<and> d1 \<le> d2
         \<and> calculate_drag_force (Fin 0) (Fin cd) (Fin a) (Fin rho) = Inr (Fin 0)"
proof -
  define k where "k = 5 / 10 * cd * a * rho"
  have coeff: "py_mul (py_mul (py_mul (Fin (5 / 10)) (Fin cd)) (Fin a)) (Fin rho) = Fin k"
    using assms(4-6) by (simp add: normal_no_overflow k_def)
  have at: "calculate_drag_force (Fin v) (Fin cd) (Fin a) (Fin rho) = Inr (Fin (k * v\<^sup>2))"
    if "v = 0 \<or> (normal_double (v\<^sup>2) \<and> normal_double (k * v\<^sup>2))" for v
  proof -
    from that have "\<not> overflows (v\<^sup>2)" and "\<not> overflows (k * v\<^sup>2)"
      by (auto simp: normal_no_overflow not_overflows_small)
    then show ?thesis
      unfolding calculate_drag_force_def coeff by simp
  qed
  have sq: "v1\<^sup>2 \<le> v2\<^sup>2"
    using assms(7,8) by (rule power_mono [rotated])
  have "0 \<le> k"
    using assms(1-3) by (simp add: k_def)
  with sq have mono: "k * v1\<^sup>2 \<le> k * v2\<^sup>2"
    by (rule mult_left_mono)
  have "calculate_drag_force (Fin 0) (Fin cd) (Fin a) (Fin rho) = Inr (Fin (k * 0\<^sup>2))"
    by (rule at) simp
  then have zero: "calculate_drag_force (Fin 0) (Fin cd) (Fin a) (Fin rho) = Inr (Fin 0)"
    by simp
  from assms(9) have e1: "calculate_drag_force (Fin v1) (Fin cd) (Fin a) (Fin rho)
      = Inr (Fin (k * v1\<^sup>2))"
    unfolding k_def [symmetric] by (rule at)
  from assms(10) have e2: "calculate_drag_force (Fin v2) (Fin cd) (Fin a) (Fin rho)
      = Inr (Fin (k * v2\<^sup>2))"
    unfolding k_def [symmetric] by (rule at)
  show ?thesis
    unfolding k_def [symmetric] using e1 e2 mono zero by blast
qed

theorem drag_force_monotone_witness:
  "\<exists>d1 d2.
      calculate_drag_force (Fin 10) (Fin (28 / 100)) (Fin (22 / 10)) (Fin (1225 / 1000))
        = Inr (Fin d1)
    \<and> calculate_drag_force (Fin 20) (Fin (28 / 100)) (Fin (22 / 10)) (Fin (1225 / 1000))
        = Inr (Fin d2)
    \<and> d1 = 3773 / 100 \<and> d2 = 15092 / 100 \<and> d1 \<le> d2
    \<and> calculate_drag_force (Fin 0) (Fin (28 / 100)) (Fin (22 / 10)) (Fin (1225 / 1000))
        = Inr (Fin 0)"
proof -
  have h1: "(0::real) < 28 / 100" and h2: "(0::real) < 22 / 10" and h3: "(0::real) < 1225 / 1000"
    and h7: "(0::real) \<le> 10" and h8: "(10::real) \<le> 20"
    by simp_all
  have h4: "normal_double (5 / 10 * (28 / 100))"
    and h5: "normal_double (5 / 10 * (28 / 100) * (22 / 10))"
    and h6: "normal_double (5 / 10 * (28 / 100) * (22 / 10) * (1225 / 1000))"
    by (rule normal_double_mid; simp)+
  have n1: "normal_double ((10::real)\<^sup>2)"
    and n2: "normal_double (5 / 10 * (28 / 100) * (22 / 10) * (1225 / 1000) * 10\<^sup>2)"
    and n3: "normal_double ((20::real)\<^sup>2)"
    and n4: "normal_double (5 / 10 * (28 / 100) * (22 / 10) * (1225 / 1000) * 20\<^sup>2)"
    by (rule normal_double_mid; simp)+
  from n1 n2 have h9: "(10::real) = 0 \<or> (normal_double (10\<^sup>2)
      \<and> normal_double (5 / 10 * (28 / 100) * (22 / 10) * (1225 / 1000) * 10\<^sup>2))"
    by blast
  from n3 n4 have h10: "(20::real) = 0 \<or> (normal_double (20\<^sup>2)
      \<and> normal_double (5 / 10 * (28 / 100) * (22 / 10) * (1225 / 1000) * 20\<^sup>2))"
    by blast
  from drag_force_monotone [OF h1 h2 h3 h4 h5 h6 h7 h8 h9 h10] show ?thesis
    by (simp add: power2_eq_square)
qed




section \<open>Range\<close>




section \<open>The pipeline of main\<close>

text \<open>The stages of scenario A of the specification, one by one, and the whole pass.\<close>

lemma scenario_sp: "convert_kmh_to_ms (Fin 100) = Fin (250 / 9)"
  by (simp add: convert_kmh_to_ms_def)

lemma scenario_sl: "convert_slope_percent_to_radians (Fin 0) = Fin 0"
  by (simp add: convert_slope_percent_to_radians_def)

lemma scenario_ro: "calculate_rolling_resistance (Fin 1500) (Fin (10 / 1000)) GRAVITY = Fin (2943 / 20)"
  by (simp add: calculate_rolling_resistance_def GRAVITY_def not_overflows_small)

lemma scenario_dr: "calculate_drag_force (Fin (250 / 9)) (Fin (28 / 100)) (Fin (22 / 10)) AIR_DENSITY
    = Inr (Fin (94325 / 324))"
  by (simp add: calculate_drag_force_def AIR_DENSITY_def not_overflows_small power2_eq_square)

lemma scenario_gr: "calculate_gradient_force (Fin 1500) (Fin 0) GRAVITY = Inr (Fin 0)"
  by (simp add: calculate_gradient_force_def GRAVITY_def not_overflows_small)

lemma scenario_tot: "calculate_total_resistance (Fin (2943 / 20)) (Fin (94325 / 324)) (Fin 0)
    = Fin (177502 / 405)"
  by (simp add: calculate_total_resistance_def not_overflows_small)

lemma scenario_pw: "calculate_power_at_wheels (Fin (177502 / 405)) (Fin (250 / 9)) = Fin (8875100 / 729)"
  by (simp add: calculate_power_at_wheels_def not_overflows_small)

lemma scenario_pb: "calculate_power_from_battery (Fin (8875100 / 729)) (Fin (88 / 100))
    = Inr (Fin (110938750 / 8019))"
  by (simp add: calculate_power_from_battery_def py_truediv_def not_overflows_small)

lemma scenario_epk: "calculate_energy_per_km (Fin (110938750 / 8019)) (Fin (250 / 9))
    = Inr (Fin (88751 / 641520))"
  by (simp add: calculate_energy_per_km_def convert_watts_to_kwh_def convert_ms_to_kmh_def
      py_truediv_def not_overflows_small)

lemma scenario_ue: "calculate_usable_battery_energy (Fin 50) (Fin (90 / 100)) = Fin 45"
  by (simp add: calculate_usable_battery_energy_def not_overflows_small)

lemma scenario_rng: "calculate_range (Fin 45) (Fin (88751 / 641520)) = Inr (Fin (28868400 / 88751))"
  by (simp add: calculate_range_def py_truediv_def not_overflows_small)


lemma scenario_A_exact:
  "main_pipeline
        \<lparr> name = None, mass = Fin 1500, drag_coefficient = Fin (28 / 100),
          frontal_area = Fin (22 / 10), rolling_resistance = Fin (10 / 1000),
          battery_capacity = Fin 50 \<rparr>
        \<lparr> speed_kmh = Fin 100, slope_percent = Fin 0 \<rparr>
        \<lparr> drivetrain_efficiency = Fin (88 / 100), battery_usable_percent = Fin (90 / 100) \<rparr>
     = Inr \<lparr> rolling = Fin (2943 / 20), drag = Fin (94325 / 324), gradient = Fin 0,
             total_force = Fin (177502 / 405), power_wheels = Fin (8875100 / 729),
             power_battery = Fin (110938750 / 8019), energy_per_km = Fin (88751 / 641520),
             usable_energy = Fin 45, range_km = Fin (28868400 / 88751) \<rparr>"
  by (simp only: main_pipeline_def Let_def vehicle_params.select_convs
      driving_conditions.select_convs system_params.select_convs
      scenario_sp scenario_sl scenario_ro scenario_dr scenario_gr scenario_tot scenario_pw
      scenario_pb scenario_epk scenario_ue scenario_rng sum.case)

text \<open>
  Claim C1, as stated, fails: for mass 1500 kg, Cd 0.28, frontal area 2.2, Crr 0.010, battery
  50 kWh, 100 km/h, slope 0, efficiency 0.88 and usable fraction 0.90 the drag force is
  \<open>94325 / 324\<close> (about 291.13 N), more than 55 N away from the stated 235.4 N, and the
  range is \<open>28868400 / 88751\<close> (about 325.27 km), more than 47 km away from the stated
  372.6 km.
\<close>

theorem scenario_A_counterexample:
  "map_sum error_name drag
     (main_pipeline
        \<lparr> name = None, mass = Fin 1500, drag_coefficient = Fin (28 / 100),
          frontal_area = Fin (22 / 10), rolling_resistance = Fin (10 / 1000),
          battery_capacity = Fin 50 \<rparr>
        \<lparr> speed_kmh = Fin 100, slope_percent = Fin 0 \<rparr>
        \<lparr> drivetrain_efficiency = Fin (88 / 100), battery_usable_percent = Fin (90 / 100) \<rparr>)
     = Inr (Fin (94325 / 324))
   \<and> \<not> \<bar>94325 / 324 - 2354 / 10\<bar> \<le> (55 :: real)
   \<and> map_sum error_name range_km
     (main_pipeline
        \<lparr> name = None, mass = Fin 1500, drag_coefficient = Fin (28 / 100),
          frontal_area = Fin (22 / 10), rolling_resistance = Fin (10 / 1000),
          battery_capacity = Fin 50 \<rparr>
        \<lparr> speed_kmh = Fin 100, slope_percent = Fin 0 \<rparr>
        \<lparr> drivetrain_efficiency = Fin (88 / 100), battery_usable_percent = Fin (90 / 100) \<rparr>)
     = Inr (Fin (28868400 / 88751))
   \<and> \<not> \<bar>28868400 / 88751 - 3726 / 10\<bar> \<le> (47 :: real)"
  unfolding scenario_A_exact by simp

text \<open>
  Claim C1, amended. The same inputs yield rolling = 147.15 N, drag = 291.13 N, gradient = 0,
  total = 438.28 N, power at the wheels = 12174.3 W, battery power = 13834.5 W, energy per
  kilometre = 0.13834 kWh/km, usable energy = 45 kWh and range = 325.27 km, each within one
  unit of its last digit.
\<close>

theorem scenario_A_values:
  "\<exists>ro dr gr tot pw pb epk ue rng.
     main_pipeline
        \<lparr> name = None, mass = Fin 1500, drag_coefficient = Fin (28 / 100),
          frontal_area = Fin (22 / 10), rolling_resistance = Fin (10 / 1000),
          battery_capacity = Fin 50 \<rparr>
        \<lparr> speed_kmh = Fin 100, slope_percent = Fin 0 \<rparr>
        \<lparr> drivetrain_efficiency = Fin (88 / 100), battery_usable_percent = Fin (90 / 100) \<rparr>
     = Inr \<lparr> rolling = Fin ro, drag = Fin dr, gradient = Fin gr, total_force = Fin tot,
             power_wheels = Fin pw, power_battery = Fin pb, energy_per_km = Fin epk,
             usable_energy = Fin ue, range_km = Fin rng \<rparr>
     \<and> ro = 14715 / 100 \<and> \<bar>dr - 29113 / 100\<bar> \<le> 1 / 100 \<and> gr = 0
     \<and> \<bar>tot - 43828 / 100\<bar> \<le> 1 / 100 \<and> \<bar>pw - 121743 / 10\<bar> \<le> 1 / 10
     \<and> \<bar>pb - 138345 / 10\<bar> \<le> 1 / 10 \<and> \<bar>epk - 13834 / 100000\<bar> \<le> 1 / 100000
     \<and> ue = 45 \<and> \<bar>rng - 32527 / 100\<bar> \<le> 1 / 100"
  apply (intro exI conjI)
           apply (rule scenario_A_exact)
          apply simp_all
  done

section \<open>Errors\<close>

text \<open>
  Claim C3, as stated, fails: at speed 0 the exception is Python's \<open>ZeroDivisionError\<close>,
  raised by the division \<open>power_kwh / speed_km\<close>; no exception named \<open>InvalidSpeed\<close>
  exists in the program.
\<close>

theorem zero_speed_counterexample:
  "calculate_energy_per_km (Fin 12075) (Fin 0) = Inl ZeroDivisionError
   \<and> error_name ZeroDivisionError \<noteq> ''InvalidSpeed''"
  by (simp add: calculate_energy_per_km_def convert_ms_to_kmh_def py_truediv_def
      not_overflows_small)

text \<open>
  Claim C3, amended. For every battery power (finite, infinite or NaN),
  \<open>calculate_energy_per_km\<close> at speed 0 raises \<open>ZeroDivisionError\<close> and returns no
  number.
\<close>

theorem zero_speed_raises_ZeroDivisionError:
  "calculate_energy_per_km p (Fin 0) = Inl ZeroDivisionError"
  by (simp add: calculate_energy_per_km_def convert_ms_to_kmh_def py_truediv_def
      not_overflows_small)

text \<open>
  What can go wrong in one pass: the gradient force never raises on the angle of a slope, the
  power raises only \<open>OverflowError\<close> and a division only \<open>ZeroDivisionError\<close>.
\<close>

lemma gradient_never_raises:
  "\<exists>gr. calculate_gradient_force m (convert_slope_percent_to_radians sl) g = Inr gr"
  by (cases "float_quot sl (Fin 100)")
    (simp_all add: calculate_gradient_force_def convert_slope_percent_to_radians_def)

lemma py_pow2_error: "py_pow2 x = Inl e \<Longrightarrow> e = OverflowError"
  by (cases x) (simp_all split: if_splits)

lemma drag_error: "calculate_drag_force s cd a rho = Inl e \<Longrightarrow> e = OverflowError"
  by (auto simp: calculate_drag_force_def split: sum.splits dest: py_pow2_error)

lemma gradient_error: "calculate_gradient_force m (convert_slope_percent_to_radians sl) g \<noteq> Inl e"
  using gradient_never_raises [of m sl g] by auto

lemma truediv_error: "py_truediv a b = Inl e \<Longrightarrow> e = ZeroDivisionError"
  by (simp add: py_truediv_def split: if_splits)

lemma main_pipeline_errors:
  "main_pipeline v c sys = Inl e \<Longrightarrow> e = ZeroDivisionError \<or> e = OverflowError"
  unfolding main_pipeline_def Let_def calculate_power_from_battery_def
    calculate_energy_per_km_def calculate_range_def
  by (auto split: sum.splits dest: drag_error truediv_error simp: gradient_error)

lemma energy_per_km_zero: "calculate_energy_per_km p (Fin 0) = Inl ZeroDivisionError"
  by (simp add: calculate_energy_per_km_def convert_ms_to_kmh_def py_truediv_def
      not_overflows_small)

lemma drag_at_rest: "\<exists>dr. calculate_drag_force (Fin 0) cd a rho = Inr dr"
  by (simp add: calculate_drag_force_def not_overflows_small)

lemma pipeline_at_rest:
  "main_pipeline v \<lparr> speed_kmh = Fin 0, slope_percent = sl \<rparr> sys = Inl ZeroDivisionError"
proof -
  have sp: "convert_kmh_to_ms (Fin 0) = Fin 0"
    by (simp add: convert_kmh_to_ms_def)
  obtain dr where dr: "calculate_drag_force (Fin 0) (drag_coefficient v) (frontal_area v)
      AIR_DENSITY = Inr dr"
    using drag_at_rest by blast
  obtain gr where gr: "calculate_gradient_force (mass v) (convert_slope_percent_to_radians sl)
      GRAVITY = Inr gr"
    using gradient_never_raises by blast
  show ?thesis
    unfolding main_pipeline_def Let_def
    by (simp add: sp dr gr energy_per_km_zero calculate_power_from_battery_def
        py_truediv_def)
qed

lemma moderate_square: "\<bar>s\<bar> \<le> 10 ^ 150 \<Longrightarrow> \<not> overflows ((s / (36 / 10))\<^sup>2)"
proof -
  assume b: "\<bar>s\<bar> \<le> 10 ^ 150"
  have "(s / (36 / 10))\<^sup>2 = s\<^sup>2 / (36 / 10)\<^sup>2"
    by (rule power_divide)
  also have "\<dots> \<le> s\<^sup>2 / 1"
    by (rule divide_left_mono) (simp_all add: power2_eq_square)
  also have "\<dots> = s\<^sup>2"
    by simp
  also have "s\<^sup>2 = \<bar>s\<bar>\<^sup>2"
    by simp
  also have "\<dots> \<le> (10 ^ 150)\<^sup>2"
    using b by (intro power_mono) simp_all
  also have "\<dots> \<le> (2::real) ^ 1023"
    by simp
  finally have "\<bar>(s / (36 / 10))\<^sup>2\<bar> \<le> 2 ^ 1023"
    by simp
  then show ?thesis
    by (rule not_overflows)
qed

lemma drag_moderate:
  assumes "\<bar>s\<bar> \<le> 10 ^ 150"
  shows "\<exists>dr. calculate_drag_force (Fin (s / (36 / 10))) cd a rho = Inr dr"
proof -
  have "py_pow2 (Fin (s / (36 / 10))) = Inr (Fin ((s / (36 / 10))\<^sup>2))"
    using moderate_square [OF assms] by (simp only: py_pow2.simps if_False)
  then show ?thesis
    unfolding calculate_drag_force_def by (simp only: sum.case) blast
qed

lemma pipeline_zero_efficiency:
  assumes "\<bar>s\<bar> \<le> 10 ^ 150"
  shows "main_pipeline v \<lparr> speed_kmh = Fin s, slope_percent = sl \<rparr>
           \<lparr> drivetrain_efficiency = Fin 0, battery_usable_percent = uf \<rparr>
         = Inl ZeroDivisionError"
proof -
  have sp: "convert_kmh_to_ms (Fin s) = Fin (s / (36 / 10))"
    by (simp add: convert_kmh_to_ms_def)
  obtain dr where dr: "calculate_drag_force (Fin (s / (36 / 10))) (drag_coefficient v)
      (frontal_area v) AIR_DENSITY = Inr dr"
    using drag_moderate [OF assms] by blast
  obtain gr where gr: "calculate_gradient_force (mass v) (convert_slope_percent_to_radians sl)
      GRAVITY = Inr gr"
    using gradient_never_raises by blast
  show ?thesis
    unfolding main_pipeline_def Let_def
    by (simp only: driving_conditions.select_convs system_params.select_convs sp dr gr
        calculate_power_from_battery_def py_truediv_def sum.case simp_thms if_True)
qed

lemma pipeline_overflow:
  "main_pipeline v \<lparr> speed_kmh = Fin (10 ^ 200), slope_percent = sl \<rparr> sys = Inl OverflowError"
proof -
  have sp: "convert_kmh_to_ms (Fin (10 ^ 200)) = Fin (10 ^ 200 / (36 / 10))"
    by (simp add: convert_kmh_to_ms_def)
  have "overflows ((10 ^ 200 / (36 / 10))\<^sup>2)"
    by (simp add: overflows_def DBL_OVERFLOW_def power2_eq_square)
  then have dr: "calculate_drag_force (Fin (10 ^ 200 / (36 / 10))) cd a rho = Inl OverflowError"
    for cd a rho
    by (simp add: calculate_drag_force_def)
  show ?thesis
    unfolding main_pipeline_def Let_def
    by (simp only: driving_conditions.select_convs sp dr sum.case)
qed

lemma pb_two: "calculate_power_from_battery (Fin (8875100 / 729)) (Fin 2)
    = Inr (Fin (4437550 / 729))"
  by (simp add: calculate_power_from_battery_def py_truediv_def not_overflows_small)

lemma epk_two: "calculate_energy_per_km (Fin (4437550 / 729)) (Fin (250 / 9))
    = Inr (Fin (88751 / 1458000))"
  by (simp add: calculate_energy_per_km_def convert_watts_to_kwh_def convert_ms_to_kmh_def
      py_truediv_def not_overflows_small)

lemma rng_two: "calculate_range (Fin 45) (Fin (88751 / 1458000)) = Inr (Fin (65610000 / 88751))"
  by (simp add: calculate_range_def py_truediv_def not_overflows_small)

lemma pb_nan: "calculate_power_from_battery (Fin (8875100 / 729)) NaN = Inr NaN"
  by (simp add: calculate_power_from_battery_def py_truediv_def)

lemma epk_nan: "calculate_energy_per_km NaN (Fin (250 / 9)) = Inr NaN"
  by (simp add: calculate_energy_per_km_def convert_watts_to_kwh_def convert_ms_to_kmh_def
      py_truediv_def not_overflows_small)

lemma rng_nan: "calculate_range (Fin 45) NaN = Inr NaN"
  by (simp add: calculate_range_def py_truediv_def)

lemma efficiency_two_run:
  "main_pipeline COMPACT_EV \<lparr> speed_kmh = Fin 100, slope_percent = Fin 0 \<rparr>
        \<lparr> drivetrain_efficiency = Fin 2, battery_usable_percent = Fin (90 / 100) \<rparr>
     = Inr \<lparr> rolling = Fin (2943 / 20), drag = Fin (94325 / 324), gradient = Fin 0,
             total_force = Fin (177502 / 405), power_wheels = Fin (8875100 / 729),
             power_battery = Fin (4437550 / 729), energy_per_km = Fin (88751 / 1458000),
             usable_energy = Fin 45, range_km = Fin (65610000 / 88751) \<rparr>"
  by (simp only: main_pipeline_def Let_def COMPACT_EV_def vehicle_params.select_convs
      driving_conditions.select_convs system_params.select_convs
      scenario_sp scenario_sl scenario_ro scenario_dr scenario_gr scenario_tot
      scenario_pw pb_two epk_two scenario_ue rng_two sum.case)

lemma efficiency_nan_run:
  "main_pipeline COMPACT_EV \<lparr> speed_kmh = Fin 100, slope_percent = Fin 0 \<rparr>
        \<lparr> drivetrain_efficiency = NaN, battery_usable_percent = Fin (90 / 100) \<rparr>
     = Inr \<lparr> rolling = Fin (2943 / 20), drag = Fin (94325 / 324), gradient = Fin 0,
             total_force = Fin (177502 / 405), power_wheels = Fin (8875100 / 729),
             power_battery = NaN, energy_per_km = NaN,
             usable_energy = Fin 45, range_km = NaN \<rparr>"
  by (simp only: main_pipeline_def Let_def COMPACT_EV_def vehicle_params.select_convs
      driving_conditions.select_convs system_params.select_convs
      scenario_sp scenario_sl scenario_ro scenario_dr scenario_gr scenario_tot
      scenario_pw pb_nan epk_nan scenario_ue rng_nan sum.case)

text \<open>
  Claim C4, as stated, fails: nothing is validated. With the preset compact vehicle at
  100 km/h on a level road, a drivetrain efficiency of 2 (outside (0, 1]) is not rejected
  and yields a range of \<open>65610000 / 88751\<close> km, and a NaN efficiency is not rejected
  either and yields the range NaN.
\<close>

theorem main_pipeline_no_validation_counterexample:
  "map_sum error_name range_km
     (main_pipeline COMPACT_EV \<lparr> speed_kmh = Fin 100, slope_percent = Fin 0 \<rparr>
        \<lparr> drivetrain_efficiency = Fin 2, battery_usable_percent = Fin (90 / 100) \<rparr>)
     = Inr (Fin (65610000 / 88751))
   \<and> map_sum error_name range_km
     (main_pipeline COMPACT_EV \<lparr> speed_kmh = Fin 100, slope_percent = Fin 0 \<rparr>
        \<lparr> drivetrain_efficiency = NaN, battery_usable_percent = Fin (90 / 100) \<rparr>)
     = Inr NaN"
  unfolding efficiency_two_run efficiency_nan_run by simp

text \<open>
  Claim C4, amended. The pipeline checks no precondition of its own; it fails only where
  Python itself raises. A speed of 0 always ends the pass with the \<open>ZeroDivisionError\<close> of
  a division, whatever the other inputs are; so does a drivetrain efficiency of 0 at every
  speed of magnitude up to \<open>10^150\<close> km/h; a speed of \<open>10^200\<close> km/h ends it with the
  \<open>OverflowError\<close> of \<open>speed_ms ** 2\<close>; no input makes it raise any other exception,
  and none names the offending quantity. A drivetrain efficiency of 1.5 is divided by like
  any other.
\<close>

theorem main_pipeline_no_validation:
  assumes "\<bar>s\<bar> \<le> 10 ^ 150"
  shows "main_pipeline v \<lparr> speed_kmh = Fin 0, slope_percent = sl \<rparr> sys
           = Inl ZeroDivisionError
       \<and> main_pipeline v \<lparr> speed_kmh = Fin s, slope_percent = sl \<rparr>
           \<lparr> drivetrain_efficiency = Fin 0, battery_usable_percent = uf \<rparr>
           = Inl ZeroDivisionError
       \<and> main_pipeline v \<lparr> speed_kmh = Fin (10 ^ 200), slope_percent = sl \<rparr> sys
           = Inl OverflowError
       \<and> main_pipeline v c sys \<noteq> Inl ValueError
       \<and> main_pipeline v c sys \<noteq> Inl EOFError
       \<and> calculate_power_from_battery p (Fin (3 / 2)) = Inr (float_quot p (Fin (3 / 2)))"
proof -
  have "main_pipeline v c sys \<noteq> Inl ValueError" and "main_pipeline v c sys \<noteq> Inl EOFError"
    using main_pipeline_errors [of v c sys] by auto
  moreover have "calculate_power_from_battery p (Fin (3 / 2)) = Inr (float_quot p (Fin (3 / 2)))"
    by (simp add: calculate_power_from_battery_def py_truediv_def)
  ultimately show ?thesis
    using pipeline_at_rest [of v sl sys] pipeline_zero_efficiency [OF assms, of v sl uf]
      pipeline_overflow [of v sl sys]
    by blast
qed

theorem main_pipeline_no_validation_witness:
  "\<bar>100 :: real\<bar> \<le> 10 ^ 150
   \<and> main_pipeline COMPACT_EV \<lparr> speed_kmh = Fin 100, slope_percent = Fin 0 \<rparr>
           \<lparr> drivetrain_efficiency = Fin 0, battery_usable_percent = Fin (90 / 100) \<rparr>
           = Inl ZeroDivisionError"
proof -
  have h: "\<bar>100 :: real\<bar> \<le> 10 ^ 150"
    by simp
  from main_pipeline_no_validation [OF h, of COMPACT_EV "Fin 0" _ "Fin (90 / 100)"] h
  show ?thesis
    by blast
qed







section \<open>The input layer\<close>

text \<open>
  With finite bounds and a default inside them, every value that \<open>get_user_input\<close>
  accepts lies within the bounds, unless it is NaN: both comparisons of the loop are false
  for NaN, so the text \<open>nan\<close> passes the check.
\<close>

lemma get_user_input_within_bounds:
  assumes "get_user_input (Some (Fin lo)) (Some (Fin hi)) (Some (Fin d)) stdin = Inr (v, rest)"
    and "lo \<le> d" and "d \<le> hi"
  shows "v = NaN \<or> (py_le (Fin lo) v \<and> py_le v (Fin hi))"
  using assms
proof (induction stdin)
  case Nil
  then show ?case by simp
next
  case (Cons l ls)
  show ?case
  proof (cases l)
    case Empty_line
    with Cons.prems show ?thesis by auto
  next
    case (Numeric w)
    with Cons show ?thesis
      by (cases w) (auto simp: py_gt_def split: if_splits)
  next
    case Non_numeric
    with Cons show ?thesis by auto
  qed
qed

text \<open>
  Claim C10 fails on the code. When the user types \<open>nan\<close> at the efficiency prompt and
  presses Enter at the next one, \<open>get_system_parameters\<close> returns a drivetrain efficiency
  of NaN, which does not lie between 0.70 and 0.98.
\<close>

theorem nan_accepted_as_efficiency:
  "get_system_parameters [Numeric NaN, Empty_line]
     = Inr (\<lparr> drivetrain_efficiency = NaN, battery_usable_percent = Fin (90 / 100) \<rparr>, [])
   \<and> \<not> (py_le (Fin (70 / 100)) NaN \<and> py_le NaN (Fin (98 / 100)))"
  by (simp add: get_system_parameters_def py_gt_def)

end
